theory Spec2Isabelle
  imports Main
begin

section \<open>JavaScript values as the webhook handler sees them\<close>

text \<open>
  Errors are values. \<open>TypeError\<close> is what the language raises on a property read of
  \<open>null\<close> or on a failed conversion to a string, \<open>SyntaxError\<close> is what
  \<open>JSON.parse\<close> raises, \<open>LibraryError\<close> is an error thrown by one of the
  imported packages.
\<close>

datatype js_error = TypeError | SyntaxError | LibraryError string

text \<open>
  A value produced by \<open>JSON.parse\<close>. The number type is a parameter: numbers are
  IEEE doubles in the source and only their rendering in a log line matters here. An object
  is the list of its own properties.
\<close>

datatype 'n json =
    JNull
  | JBool bool
  | JNum 'n
  | JStr string
  | JArr "'n json list"
  | JObj "(string \<times> 'n json) list"

text \<open>A value of the language that may be \<open>undefined\<close> (\<open>None\<close>).\<close>

type_synonym 'n jsval = "'n json option"

text \<open>
  The conversion a template literal applies to a substituted value. An array is joined
  with commas, \<open>null\<close> elements rendering as the empty string. An object renders as
  \<open>[object Object]\<close> through the inherited \<open>toString\<close>; when it has an own
  property named \<open>toString\<close>, that property shadows the inherited method, it is not
  callable (it came out of \<open>JSON.parse\<close>), the inherited \<open>valueOf\<close> returns
  the object itself, and the conversion raises a \<open>TypeError\<close>.
\<close>

fun to_string :: "('n \<Rightarrow> string) \<Rightarrow> 'n json \<Rightarrow> js_error + string"
  and join :: "('n \<Rightarrow> string) \<Rightarrow> 'n json list \<Rightarrow> js_error + string" where
  "to_string ns JNull = Inr ''null''"
| "to_string ns (JBool b) = Inr (if b then ''true'' else ''false'')"
| "to_string ns (JNum n) = Inr (ns n)"
| "to_string ns (JStr s) = Inr s"
| "to_string ns (JArr xs) = join ns xs"
| "to_string ns (JObj kvs) =
     (case map_of kvs ''toString'' of
        Some _ \<Rightarrow> Inl TypeError
      | None \<Rightarrow> Inr ''[object Object]'')"
| "join ns [] = Inr []"
| "join ns (x # xs) =
     (case (case x of JNull \<Rightarrow> Inr [] | _ \<Rightarrow> to_string ns x) of
        Inl e \<Rightarrow> Inl e
      | Inr s \<Rightarrow>
          (case xs of
             [] \<Rightarrow> Inr s
           | _ \<Rightarrow> (case join ns xs of Inl e \<Rightarrow> Inl e | Inr t \<Rightarrow> Inr (s @ '','' @ t))))"

definition val_string :: "('n \<Rightarrow> string) \<Rightarrow> 'n jsval \<Rightarrow> js_error + string" where
  "val_string ns v = (case v of None \<Rightarrow> Inr ''undefined'' | Some j \<Rightarrow> to_string ns j)"

text \<open>
  A template literal: literal chunks and substitutions, converted left to right; the first
  conversion that raises ends the evaluation.
\<close>

datatype 'n part = Lit string | Sub "'n jsval"

fun template :: "('n \<Rightarrow> string) \<Rightarrow> 'n part list \<Rightarrow> js_error + string" where
  "template ns [] = Inr []"
| "template ns (Lit s # ps) =
     (case template ns ps of Inl e \<Rightarrow> Inl e | Inr t \<Rightarrow> Inr (s @ t))"
| "template ns (Sub v # ps) =
     (case val_string ns v of
        Inl e \<Rightarrow> Inl e
      | Inr s \<Rightarrow> (case template ns ps of Inl e \<Rightarrow> Inl e | Inr t \<Rightarrow> Inr (s @ t)))"

text \<open>
  \<open>v.k\<close> on a value that is not \<open>undefined\<close>, for the property names the handler
  reads (\<open>action\<close>, \<open>pull_request\<close>, \<open>number\<close>, \<open>title\<close>, \<open>user\<close>,
  \<open>login\<close>, \<open>merged\<close>): none of them is defined by a built-in prototype, so only
  an object's own property gives a value, and \<open>null\<close> raises.
\<close>

fun get_prop :: "'n json \<Rightarrow> string \<Rightarrow> js_error + 'n jsval" where
  "get_prop JNull k = Inl TypeError"
| "get_prop (JObj kvs) k = Inr (map_of kvs k)"
| "get_prop (JBool b) k = Inr None"
| "get_prop (JNum n) k = Inr None"
| "get_prop (JStr s) k = Inr None"
| "get_prop (JArr xs) k = Inr None"

text \<open>\<open>v?.k\<close>: \<open>undefined\<close> and \<open>null\<close> short-circuit to \<open>undefined\<close>.\<close>

fun opt_chain :: "'n jsval \<Rightarrow> string \<Rightarrow> 'n jsval" where
  "opt_chain None k = None"
| "opt_chain (Some JNull) k = None"
| "opt_chain (Some (JObj kvs)) k = map_of kvs k"
| "opt_chain (Some (JBool b)) k = None"
| "opt_chain (Some (JNum n)) k = None"
| "opt_chain (Some (JStr s)) k = None"
| "opt_chain (Some (JArr xs)) k = None"

section \<open>The webhook handler (apps/api/src/index.ts)\<close>

text \<open>
  The request as the handler reads it: three headers, each possibly missing, and the body
  text.
\<close>

record request =
  x_github_event :: "string option"
  x_github_delivery :: "string option"
  x_hub_signature_256 :: "string option"
  req_text :: string

text \<open>
  What \<open>c.json(obj, status)\<close> returns. \<open>AckBody event deliveryId\<close> is
  \<open>{ok: true, event, deliveryId}\<close>, the delivery id being \<open>undefined\<close> when the
  header is missing; \<open>CreatedBody message commentId commentUrl\<close> is the comment
  publisher's success body.
\<close>

datatype 'n reply_body =
    ErrorBody string
  | AckBody string "string option"
  | CreatedBody string 'n string

datatype 'n response = Json "'n reply_body" nat

text \<open>
  The imported functions the handler calls. \<open>verify secret payload signature\<close> is
  \<open>Webhooks.verify\<close> of the package @octokit/webhooks on an instance built with that
  secret: its promise either rejects or resolves to a boolean. \<open>json_parse\<close> is
  \<open>JSON.parse\<close>, \<open>number_to_string\<close> the rendering of a number.
\<close>

record 'n platform =
  verify :: "string \<Rightarrow> string \<Rightarrow> string \<Rightarrow> js_error + bool"
  json_parse :: "string \<Rightarrow> js_error + 'n json"
  number_to_string :: "'n \<Rightarrow> string"

text \<open>
  What a run does besides returning: the calls into the platform and the console lines, in
  order.
\<close>

datatype effect =
    VerifyCall string string
  | ParseCall string
  | ConsoleLog string
  | ConsoleError string js_error


text \<open>
  The \<open>pull_request\<close> block of the handler (the body of
  \<open>if (event === "pull_request")\<close>): four reads of the payload, one log line for
  every pull request event and one chosen by the \<open>switch\<close> over the action.
  \<open>payload.pull_request\<close> is read once here and four times in the source; the read
  has no effect and \<open>payload.action\<close> before it has already raised on \<open>null\<close>.
\<close>

definition action_line :: "('n \<Rightarrow> string) \<Rightarrow> 'n jsval \<Rightarrow> 'n jsval \<Rightarrow> 'n jsval \<Rightarrow> 'n jsval \<Rightarrow> js_error + string" where
  "action_line ns action pr prNumber author =
     (if action = Some (JStr ''opened'') then
        template ns [Lit ''New pull request #'', Sub prNumber, Lit '' opened by '', Sub author]
      else if action = Some (JStr ''closed'') then
        (let merged = opt_chain pr ''merged''
         in template ns [Lit ''Pull request #'', Sub prNumber, Lit '' closed (merged: '', Sub merged, Lit '')''])
      else if action = Some (JStr ''reopened'') then
        template ns [Lit ''Pull request #'', Sub prNumber, Lit '' reopened'']
      else if action = Some (JStr ''synchronize'') then
        template ns [Lit ''Pull request #'', Sub prNumber, Lit '' updated with new commits'']
      else
        template ns [Lit ''Pull request #'', Sub prNumber, Lit '' action: '', Sub action])"

definition pull_request_block :: "('n \<Rightarrow> string) \<Rightarrow> 'n json \<Rightarrow> (js_error + unit) \<times> effect list" where
  "pull_request_block ns payload =
     (case get_prop payload ''action'' of
        Inl e \<Rightarrow> (Inl e, [])
      | Inr action \<Rightarrow>
          (case get_prop payload ''pull_request'' of
             Inl e \<Rightarrow> (Inl e, [])
           | Inr pr \<Rightarrow>
               (let prNumber = opt_chain pr ''number'';
                    title = opt_chain pr ''title'';
                    author = opt_chain (opt_chain pr ''user'') ''login''
                in case template ns [Lit ''Pull request #'', Sub prNumber, Lit '': '', Sub title,
                                     Lit '' ('', Sub action, Lit '') by '', Sub author] of
                     Inl e \<Rightarrow> (Inl e, [])
                   | Inr summary \<Rightarrow>
                       (case action_line ns action pr prNumber author of
                          Inl e \<Rightarrow> (Inl e, [ConsoleLog summary])
                        | Inr line \<Rightarrow> (Inr (), [ConsoleLog summary, ConsoleLog line])))))"

text \<open>
  The handler of \<open>POST /api/webhooks\<close>. It returns the response, or the error it
  raised, together with the effects of the run. \<open>!event\<close>, \<open>!signature\<close> and
  \<open>!body\<close> hold for a missing header and for the empty string. The value
  \<open>webhooks.verify\<close> resolves to is not read: only a rejection reaches the
  \<open>catch\<close>.
\<close>

definition received_line :: "string \<Rightarrow> string option \<Rightarrow> string" where
  "received_line event deliveryId =
     ''Received GitHub webhook: '' @ event @ '' (delivery: '' @
     (case deliveryId of None \<Rightarrow> ''undefined'' | Some d \<Rightarrow> d) @ '')''"

definition handler :: "'n platform \<Rightarrow> string \<Rightarrow> request \<Rightarrow> (js_error + 'n response) \<times> effect list" where
  "handler P secret req =
     (let deliveryId = x_github_delivery req; body = req_text req;
          missing = (Inr (Json (ErrorBody ''Missing required headers or body'') 400), [])
      in case x_github_event req of
           None \<Rightarrow> missing
         | Some event \<Rightarrow>
             (case x_hub_signature_256 req of
                None \<Rightarrow> missing
              | Some signature \<Rightarrow>
                  if event = [] \<or> signature = [] \<or> body = [] then missing
                  else
                    (case verify P secret body signature of
                       Inl e \<Rightarrow>
                         (Inr (Json (ErrorBody ''Invalid signature'') 401),
                          [VerifyCall body signature,
                           ConsoleError ''Webhook signature verification failed:'' e])
                     | Inr verdict \<Rightarrow>
                         (case json_parse P body of
                            Inl e \<Rightarrow>
                              (Inr (Json (ErrorBody ''Invalid JSON payload'') 400),
                               [VerifyCall body signature, ParseCall body,
                                ConsoleError ''Failed to parse webhook payload:'' e])
                          | Inr payload \<Rightarrow>
                              (let pre = [VerifyCall body signature, ParseCall body,
                                          ConsoleLog (received_line event deliveryId)];
                                   ack = Json (AckBody event deliveryId) 200
                               in if event = ''pull_request'' then
                                    (case pull_request_block (number_to_string P) payload of
                                       (Inl e, logs) \<Rightarrow> (Inl e, pre @ logs)
                                     | (Inr u, logs) \<Rightarrow> (Inr ack, pre @ logs))
                                  else (Inr ack, pre))))))"









definition present :: "string option \<Rightarrow> bool" where
  "present h = (case h of None \<Rightarrow> False | Some s \<Rightarrow> s \<noteq> [])"

section \<open>The comment publisher (apps/api/src/lib/github.ts)\<close>

text \<open>The three environment variables \<open>createReviewComment\<close> reads.\<close>

record env =
  GITHUB_APP_ID :: "string option"
  GITHUB_PRIVATE_KEY :: "string option"
  GITHUB_INSTALLATION_ID :: "string option"

text \<open>
  The \<open>auth\<close> option handed to \<open>new Octokit\<close>. The spread
  \<open>...(installationId && {installationId: ...})\<close> adds the key only for a truthy
  variable, so the field is optional.
\<close>

record 'n auth_options =
  appId :: 'n
  privateKey :: string
  installationId :: "'n option"

datatype 'n comment = Comment (comment_id: 'n) (html_url: string)

text \<open>
  The imported functions the publisher calls: \<open>parseInt(s, 10)\<close>, the constructor
  \<open>new Octokit\<close> (which runs the authentication strategy on the options and may
  throw), \<open>octokit.auth({type})\<close> giving the \<open>type\<close> of the authentication,
  \<open>octokit.request("GET /app")\<close> giving the slug of the application record
  (\<open>None\<close> when \<open>data\<close> is absent), \<open>octokit.rest.issues.createComment\<close>,
  and the rendering of a number in a template literal. Each call either raises or returns.
\<close>

record ('n, 'c) octokit_api =
  parseInt10 :: "string \<Rightarrow> 'n"
  new_Octokit :: "'n auth_options \<Rightarrow> js_error + 'c"
  auth :: "'c \<Rightarrow> string \<Rightarrow> js_error + string"
  request_GET_app :: "'c \<Rightarrow> js_error + string option"
  createComment :: "'c \<Rightarrow> string \<Rightarrow> string \<Rightarrow> 'n \<Rightarrow> string \<Rightarrow> js_error + 'n comment"
  render_number :: "'n \<Rightarrow> string"

datatype 'n log_arg = S string | N 'n

datatype 'n gh_effect =
    Console "'n log_arg list"
  | ConsoleErr string js_error
  | NewOctokit "'n auth_options"
  | AuthCall string
  | GetAppCall
  | CreateCommentCall string string 'n string

text \<open>The \<open>catch\<close> block: the error goes to the console, the caller gets a fixed body.\<close>

definition caught :: "js_error \<Rightarrow> 'n gh_effect list \<Rightarrow> (js_error + 'n response) \<times> 'n gh_effect list" where
  "caught e log =
     (Inr (Json (ErrorBody ''Failed to create review comment'') 500),
      log @ [ConsoleErr ''Error creating review comment:'' e])"

text \<open>
  The object literal passed as \<open>auth\<close> to the constructor, and the \<open>type\<close>
  passed to \<open>octokit.auth\<close>: both test \<open>installationId\<close> for truthiness.
\<close>

definition auth_config :: "('n, 'c) octokit_api \<Rightarrow> string \<Rightarrow> string \<Rightarrow> string option \<Rightarrow> 'n auth_options" where
  "auth_config A app_id private_key inst =
     \<lparr>appId = parseInt10 A app_id, privateKey = private_key,
      installationId =
        (case inst of
           None \<Rightarrow> None
         | Some s \<Rightarrow> (if s = [] then None else Some (parseInt10 A s)))\<rparr>"

definition auth_type :: "string option \<Rightarrow> string" where
  "auth_type inst =
     (case inst of None \<Rightarrow> ''app'' | Some s \<Rightarrow> (if s = [] then ''app'' else ''installation''))"

text \<open>The statements inside \<open>try\<close>, on the constructed client.\<close>

definition try_block :: "('n, 'c) octokit_api \<Rightarrow> 'c \<Rightarrow> string option \<Rightarrow> string \<Rightarrow> string \<Rightarrow> 'n \<Rightarrow> string \<Rightarrow> 'n gh_effect list \<Rightarrow> (js_error + 'n response) \<times> 'n gh_effect list" where
  "try_block A octokit inst owner repo pullNumber body log =
     (let ty = auth_type inst;
          t1 = log @ [AuthCall ty]
      in case auth A octokit ty of
           Inl e \<Rightarrow> caught e t1
         | Inr authentication_type \<Rightarrow>
             (let t2 = t1 @ [Console [S ''Authenticated successfully:'', S authentication_type],
                             GetAppCall]
              in case request_GET_app A octokit of
                   Inl e \<Rightarrow> caught e t2
                 | Inr None \<Rightarrow> (Inr (Json (ErrorBody ''Failed to retrieve app data'') 500), t2)
                 | Inr (Some slug) \<Rightarrow>
                     (let t3 = t2 @ [Console [S (''Authenticated as GitHub App: '' @ slug)],
                                     CreateCommentCall owner repo pullNumber body]
                      in case createComment A octokit owner repo pullNumber body of
                           Inl e \<Rightarrow> caught e t3
                         | Inr c \<Rightarrow>
                             (Inr (Json (CreatedBody ''Review comment created successfully''
                                           (comment_id c) (html_url c)) 200),
                              t3 @ [Console [S (''Created review comment on PR #'' @
                                               render_number A pullNumber @ '': '' @
                                               render_number A (comment_id c))]]))))"

text \<open>
  \<open>createReviewComment\<close>. \<open>!appId\<close> and \<open>!privateKey\<close> hold for an unset
  variable and for the empty string. The client is constructed before the \<open>try\<close>, so
  an error of the constructor is not caught.
\<close>

definition createReviewComment :: "('n, 'c) octokit_api \<Rightarrow> env \<Rightarrow> string \<Rightarrow> string \<Rightarrow> 'n \<Rightarrow> string \<Rightarrow> (js_error + 'n response) \<times> 'n gh_effect list" where
  "createReviewComment A E owner repo pullNumber body =
     (let t0 = [Console [S owner, S repo, N pullNumber, S body]];
          missing = (Inr (Json (ErrorBody ''Missing GITHUB_APP_ID or GITHUB_PRIVATE_KEY environment variables'') 500), t0)
      in case GITHUB_APP_ID E of
           None \<Rightarrow> missing
         | Some app_id \<Rightarrow>
             (case GITHUB_PRIVATE_KEY E of
                None \<Rightarrow> missing
              | Some private_key \<Rightarrow>
                  if app_id = [] \<or> private_key = [] then missing
                  else
                    (let inst = GITHUB_INSTALLATION_ID E;
                         options = auth_config A app_id private_key inst;
                         t1 = t0 @ [NewOctokit options]
                     in case new_Octokit A options of
                          Inl e \<Rightarrow> (Inl e, t1)
                        | Inr octokit \<Rightarrow> try_block A octokit inst owner repo pullNumber body t1)))"

section \<open>Concrete platforms for running the model\<close>

text \<open>Decimal rendering of a natural number, as a number below \<open>10^21\<close> prints.\<close>

fun decimal :: "nat \<Rightarrow> string" where
  "decimal n =
     (if n < 10 then [''0123456789'' ! n]
      else decimal (n div 10) @ [''0123456789'' ! (n mod 10)])"

declare decimal.simps [simp del]

text \<open>
  A platform whose verification call has the given outcome and whose parser knows the
  listed bodies only (any other text is a syntax error).
\<close>

definition example_platform :: "js_error + bool \<Rightarrow> (string \<times> nat json) list \<Rightarrow> nat platform" where
  "example_platform outcome bodies =
     \<lparr>verify = (\<lambda>secret payload signature. outcome),
      json_parse = (\<lambda>s. case map_of bodies s of None \<Rightarrow> Inl SyntaxError | Some j \<Rightarrow> Inr j),
      number_to_string = decimal\<rparr>"

text \<open>The decimal value of the leading digits of a string (the examples use digit strings).\<close>

fun digits_value :: "nat \<Rightarrow> string \<Rightarrow> nat" where
  "digits_value acc [] = acc"
| "digits_value acc (c # cs) =
     (case map_of (zip ''0123456789'' [0, 1, 2, 3, 4, 5, 6, 7, 8, 9]) c of
        None \<Rightarrow> acc
      | Some v \<Rightarrow> digits_value (10 * acc + v) cs)"

text \<open>
  A hosted service whose three calls have the given outcomes; the client is constructed
  without error.
\<close>

definition example_api :: "js_error + string \<Rightarrow> js_error + string option \<Rightarrow> js_error + nat comment \<Rightarrow> (nat, unit) octokit_api" where
  "example_api auth_outcome app_outcome comment_outcome =
     \<lparr>parseInt10 = digits_value 0,
      new_Octokit = (\<lambda>options. Inr ()),
      auth = (\<lambda>client ty. auth_outcome),
      request_GET_app = (\<lambda>client. app_outcome),
      createComment = (\<lambda>client owner repo n body. comment_outcome),
      render_number = decimal\<rparr>"

text \<open>
  The same service with the checks the authentication strategy \<open>createAppAuth\<close> of
  @octokit/auth-app makes when \<open>new Octokit\<close> calls it on the options: a falsy
  \<open>appId\<close>, a missing \<open>privateKey\<close>, or an \<open>installationId\<close> key holding a
  falsy value makes the constructor throw.
\<close>

definition createAppAuth_checks :: "nat auth_options \<Rightarrow> js_error + unit" where
  "createAppAuth_checks options =
     (if appId options = 0 then
        Inl (LibraryError ''[@octokit/auth-app] appId option is required'')
      else if privateKey options = [] then
        Inl (LibraryError ''[@octokit/auth-app] privateKey option is required'')
      else if installationId options = Some 0 then
        Inl (LibraryError ''[@octokit/auth-app] installationId is set to a falsy value'')
      else Inr ())"

definition validating_api :: "js_error + string \<Rightarrow> js_error + string option \<Rightarrow> js_error + nat comment \<Rightarrow> (nat, unit) octokit_api" where
  "validating_api auth_outcome app_outcome comment_outcome =
     (example_api auth_outcome app_outcome comment_outcome)\<lparr>new_Octokit := createAppAuth_checks\<rparr>"

text \<open>
  A value whose conversion to a string cannot raise: \<open>undefined\<close>, \<open>null\<close>, a
  boolean, a number or a string.
\<close>

fun scalar :: "'n jsval \<Rightarrow> bool" where
  "scalar None = True"
| "scalar (Some JNull) = True"
| "scalar (Some (JBool b)) = True"
| "scalar (Some (JNum n)) = True"
| "scalar (Some (JStr s)) = True"
| "scalar (Some (JArr xs)) = False"
| "scalar (Some (JObj kvs)) = False"

section \<open>The webhook handler: presence check, verification, parsing\<close>

lemma handler_missing:
  assumes "x_github_event req = None \<or> x_github_event req = Some []
           \<or> x_hub_signature_256 req = None \<or> x_hub_signature_256 req = Some []
           \<or> req_text req = []"
  shows "handler P secret req =
           (Inr (Json (ErrorBody ''Missing required headers or body'') 400), [])"
  using assms by (auto simp: handler_def Let_def split: option.splits)

lemma handler_checked:
  assumes "x_github_event req = Some event" "event \<noteq> []"
    and "x_hub_signature_256 req = Some signature" "signature \<noteq> []"
    and "req_text req \<noteq> []"
  shows "handler P secret req =
           (case verify P secret (req_text req) signature of
              Inl e \<Rightarrow>
                (Inr (Json (ErrorBody ''Invalid signature'') 401),
                 [VerifyCall (req_text req) signature,
                  ConsoleError ''Webhook signature verification failed:'' e])
            | Inr verdict \<Rightarrow>
                (case json_parse P (req_text req) of
                   Inl e \<Rightarrow>
                     (Inr (Json (ErrorBody ''Invalid JSON payload'') 400),
                      [VerifyCall (req_text req) signature, ParseCall (req_text req),
                       ConsoleError ''Failed to parse webhook payload:'' e])
                 | Inr payload \<Rightarrow>
                     (if event = ''pull_request'' then
                        (case pull_request_block (number_to_string P) payload of
                           (Inl e, logs) \<Rightarrow>
                             (Inl e,
                              [VerifyCall (req_text req) signature, ParseCall (req_text req),
                               ConsoleLog (received_line event (x_github_delivery req))] @ logs)
                         | (Inr u, logs) \<Rightarrow>
                             (Inr (Json (AckBody event (x_github_delivery req)) 200),
                              [VerifyCall (req_text req) signature, ParseCall (req_text req),
                               ConsoleLog (received_line event (x_github_delivery req))] @ logs))
                      else
                        (Inr (Json (AckBody event (x_github_delivery req)) 200),
                         [VerifyCall (req_text req) signature, ParseCall (req_text req),
                          ConsoleLog (received_line event (x_github_delivery req))]))))"
  using assms by (simp add: handler_def Let_def split: sum.splits prod.splits)

lemmas handler_eval =
  handler_def example_platform_def received_line_def Let_def pull_request_block_def
  action_line_def val_string_def

text \<open>
  Claim C2. A request whose event header, signature header or body is missing or empty gets
  the 400 response \<open>{error: "Missing required headers or body"}\<close> and the run has no
  effect at all: neither the verification nor the parser is called. A request in which the
  three are present never gets that response, whatever its delivery header, so a missing
  \<open>x-github-delivery\<close> alone does not trigger it.
\<close>

theorem missing_fields_rejected:
  "(if present (x_github_event req) \<and> present (x_hub_signature_256 req) \<and> req_text req \<noteq> []
    then fst (handler P secret req) \<noteq>
           Inr (Json (ErrorBody ''Missing required headers or body'') 400)
    else handler P secret req =
           (Inr (Json (ErrorBody ''Missing required headers or body'') 400), []))"
proof (cases "present (x_github_event req) \<and> present (x_hub_signature_256 req) \<and> req_text req \<noteq> []")
  case True
  then obtain event signature where
    ev: "x_github_event req = Some event" "event \<noteq> []" and
    sg: "x_hub_signature_256 req = Some signature" "signature \<noteq> []" and
    bd: "req_text req \<noteq> []"
    by (auto simp: present_def split: option.splits)
  have ok: "fst (handler P secret req) \<noteq>
          Inr (Json (ErrorBody ''Missing required headers or body'') 400)"
    unfolding handler_checked [OF ev sg bd]
    by (simp split: sum.splits prod.splits)
  show ?thesis using True ok by simp
next
  case False
  then have "x_github_event req = None \<or> x_github_event req = Some []
           \<or> x_hub_signature_256 req = None \<or> x_hub_signature_256 req = Some []
           \<or> req_text req = []"
    by (auto simp: present_def split: option.splits)
  from handler_missing [OF this]
  have m: "handler P secret req =
             (Inr (Json (ErrorBody ''Missing required headers or body'') 400), [])" .
  show ?thesis by (simp only: False if_False m)
qed

theorem missing_fields_rejected_witness:
  "handler (example_platform (Inr True) [(''{}'', JObj [])]) ''s3cret''
     \<lparr>x_github_event = Some ''push'', x_github_delivery = Some ''d-1'',
      x_hub_signature_256 = Some [], req_text = ''{}''\<rparr>
     = (Inr (Json (ErrorBody ''Missing required headers or body'') 400), [])
   \<and> fst (handler (example_platform (Inr True) [(''{}'', JObj [])]) ''s3cret''
            \<lparr>x_github_event = Some ''push'', x_github_delivery = None,
             x_hub_signature_256 = Some ''sha256=0000'', req_text = ''{}''\<rparr>)
       \<noteq> Inr (Json (ErrorBody ''Missing required headers or body'') 400)"
  using
    missing_fields_rejected [where P = "example_platform (Inr True) [(''{}'', JObj [])]"
      and secret = "''s3cret''"
      and req = "\<lparr>x_github_event = Some ''push'', x_github_delivery = Some ''d-1'',
                  x_hub_signature_256 = Some [], req_text = ''{}''\<rparr>"]
    missing_fields_rejected [where P = "example_platform (Inr True) [(''{}'', JObj [])]"
      and secret = "''s3cret''"
      and req = "\<lparr>x_github_event = Some ''push'', x_github_delivery = None,
                  x_hub_signature_256 = Some ''sha256=0000'', req_text = ''{}''\<rparr>"]
  by (simp add: present_def)

text \<open>
  Claim C3. When the presence check passes and the verification call resolves (in
  particular when the signature verifies), a body the parser rejects gets the 400 response
  \<open>{error: "Invalid JSON payload"}\<close>; the run has called the verification, then the
  parser, and logged the parser's error.
\<close>

theorem invalid_json_rejected:
  assumes "x_github_event req = Some event" "event \<noteq> []"
    and "x_hub_signature_256 req = Some signature" "signature \<noteq> []"
    and "req_text req \<noteq> []"
    and "verify P secret (req_text req) signature = Inr verdict"
    and "json_parse P (req_text req) = Inl e"
  shows "handler P secret req =
           (Inr (Json (ErrorBody ''Invalid JSON payload'') 400),
            [VerifyCall (req_text req) signature, ParseCall (req_text req),
             ConsoleError ''Failed to parse webhook payload:'' e])"
  unfolding handler_checked [OF assms(1-5)] by (simp add: assms(6,7))

theorem invalid_json_rejected_witness:
  "handler (example_platform (Inr True) []) ''s3cret''
     \<lparr>x_github_event = Some ''push'', x_github_delivery = Some ''d-1'',
      x_hub_signature_256 = Some ''sha256=0000'', req_text = ''{action:''\<rparr>
   = (Inr (Json (ErrorBody ''Invalid JSON payload'') 400),
      [VerifyCall ''{action:'' ''sha256=0000'', ParseCall ''{action:'',
       ConsoleError ''Failed to parse webhook payload:'' SyntaxError])"
  using
    invalid_json_rejected [where P = "example_platform (Inr True) []"
      and secret = "''s3cret''" and event = "''push''" and signature = "''sha256=0000''"
      and verdict = True and e = SyntaxError
      and req = "\<lparr>x_github_event = Some ''push'', x_github_delivery = Some ''d-1'',
                  x_hub_signature_256 = Some ''sha256=0000'', req_text = ''{action:''\<rparr>"]
  by (simp add: example_platform_def)

text \<open>
  What holds of the signature check: when the verification call rejects, the response is 401
  \<open>{error: "Invalid signature"}\<close> and the parser is never called: verification comes
  before parsing.
\<close>

lemma verify_rejection_unauthorized:
  assumes "x_github_event req = Some event" "event \<noteq> []"
    and "x_hub_signature_256 req = Some signature" "signature \<noteq> []"
    and "req_text req \<noteq> []"
    and "verify P secret (req_text req) signature = Inl e"
  shows "handler P secret req =
           (Inr (Json (ErrorBody ''Invalid signature'') 401),
            [VerifyCall (req_text req) signature,
             ConsoleError ''Webhook signature verification failed:'' e])"
  unfolding handler_checked [OF assms(1-5)] by (simp add: assms(6))

text \<open>
  The value the verification call resolves to is never read: replacing every verdict by
  \<open>True\<close> changes no run of the handler.
\<close>

lemma verdict_ignored:
  "handler
     (P\<lparr>verify := (\<lambda>s b g. case verify P s b g of Inl e \<Rightarrow> Inl e | Inr v \<Rightarrow> Inr True)\<rparr>)
     secret req
   = handler P secret req"
  by (simp add: handler_def Let_def split: option.splits sum.splits)

text \<open>
  Claim C1. The claim says that a signature that does not verify gets the 401 response and
  that the body is then never parsed. \<open>Webhooks.verify\<close> reports a mismatch by
  resolving to \<open>false\<close>; the handler awaits the call inside \<open>try\<close> and drops the
  value, so only a rejected call is answered with 401. On the request below the
  verification resolves to \<open>False\<close>, and the handler parses the body and acknowledges
  the delivery with 200.
\<close>

theorem unverified_signature_acknowledged:
  "handler (example_platform (Inr False) [(''{}'', JObj [])]) ''s3cret''
     \<lparr>x_github_event = Some ''push'', x_github_delivery = Some ''d-1'',
      x_hub_signature_256 = Some ''sha256=0000'', req_text = ''{}''\<rparr>
   = (Inr (Json (AckBody ''push'' (Some ''d-1'')) 200),
      [VerifyCall ''{}'' ''sha256=0000'', ParseCall ''{}'',
       ConsoleLog ''Received GitHub webhook: push (delivery: d-1)''])"
  by (simp add: handler_eval)

section \<open>The webhook handler: dispatch and acknowledgement\<close>

lemma get_prop_not_null: "payload \<noteq> JNull \<Longrightarrow> get_prop payload k = Inr (opt_chain (Some payload) k)"
  by (cases payload) simp_all

lemma val_string_simps [simp]:
  "val_string ns None = Inr ''undefined''"
  "val_string ns (Some j) = to_string ns j"
  by (simp_all add: val_string_def)

lemma scalar_val_string: "scalar v \<Longrightarrow> \<exists>s. val_string ns v = Inr s"
  by (cases v rule: scalar.cases) simp_all

text \<open>
  What holds of the acknowledgement: every event other than \<open>pull_request\<close> that passes the
  presence check, the verification call and the parser is acknowledged with 200 and
  \<open>{ok: true, event, deliveryId}\<close>, after the one correlation line.
\<close>

lemma other_events_acknowledged:
  assumes "x_github_event req = Some event" "event \<noteq> []"
    and "x_hub_signature_256 req = Some signature" "signature \<noteq> []"
    and "req_text req \<noteq> []"
    and "verify P secret (req_text req) signature = Inr verdict"
    and "json_parse P (req_text req) = Inr payload"
    and "event \<noteq> ''pull_request''"
  shows "handler P secret req =
           (Inr (Json (AckBody event (x_github_delivery req)) 200),
            [VerifyCall (req_text req) signature, ParseCall (req_text req),
             ConsoleLog (received_line event (x_github_delivery req))])"
  unfolding handler_checked [OF assms(1-5)] by (simp add: assms(6-8))

text \<open>
  The \<open>pull_request\<close> block on a payload that is not \<open>null\<close> and whose logged
  fields are absent or scalar: it raises nothing and logs two lines.
\<close>

lemma pull_request_block_plain:
  assumes "get_prop payload ''action'' = Inr action"
    and "get_prop payload ''pull_request'' = Inr pr"
    and "scalar action" "scalar (opt_chain pr ''number'')" "scalar (opt_chain pr ''title'')"
    and "scalar (opt_chain (opt_chain pr ''user'') ''login'')"
    and "scalar (opt_chain pr ''merged'')"
  shows "\<exists>summary line. pull_request_block ns payload =
           (Inr (), [ConsoleLog summary, ConsoleLog line])"
proof -
  obtain a where a: "val_string ns action = Inr a"
    using scalar_val_string [OF assms(3)] by blast
  obtain n where n: "val_string ns (opt_chain pr ''number'') = Inr n"
    using scalar_val_string [OF assms(4)] by blast
  obtain t where t: "val_string ns (opt_chain pr ''title'') = Inr t"
    using scalar_val_string [OF assms(5)] by blast
  obtain u where u: "val_string ns (opt_chain (opt_chain pr ''user'') ''login'') = Inr u"
    using scalar_val_string [OF assms(6)] by blast
  obtain m where m: "val_string ns (opt_chain pr ''merged'') = Inr m"
    using scalar_val_string [OF assms(7)] by blast
  have "\<exists>line. action_line ns action pr (opt_chain pr ''number'')
                 (opt_chain (opt_chain pr ''user'') ''login'') = Inr line"
    by (simp add: action_line_def Let_def a n u m)
  then obtain line where
    "action_line ns action pr (opt_chain pr ''number'')
       (opt_chain (opt_chain pr ''user'') ''login'') = Inr line" ..
  then show ?thesis
    by (simp add: pull_request_block_def Let_def assms(1,2) a n t u)
qed

text \<open>
  What holds of the \<open>pull_request\<close> events: one whose payload is not
  \<open>null\<close> and whose fields \<open>action\<close>, \<open>number\<close>, \<open>title\<close>,
  \<open>user.login\<close> and \<open>merged\<close> are absent or scalar raises nothing and is
  acknowledged with 200.
\<close>

lemma plain_pull_request_acknowledged:
  assumes "x_github_event req = Some ''pull_request''"
    and "x_hub_signature_256 req = Some signature" "signature \<noteq> []"
    and "req_text req \<noteq> []"
    and "verify P secret (req_text req) signature = Inr verdict"
    and "json_parse P (req_text req) = Inr payload"
    and "payload \<noteq> JNull"
    and "pr = opt_chain (Some payload) ''pull_request''"
    and "scalar (opt_chain (Some payload) ''action'')"
    and "scalar (opt_chain pr ''number'')" "scalar (opt_chain pr ''title'')"
    and "scalar (opt_chain (opt_chain pr ''user'') ''login'')"
    and "scalar (opt_chain pr ''merged'')"
  shows "fst (handler P secret req) =
           Inr (Json (AckBody ''pull_request'' (x_github_delivery req)) 200)"
proof -
  have ne: "''pull_request'' \<noteq> []" by simp
  have a: "get_prop payload ''action'' = Inr (opt_chain (Some payload) ''action'')"
    by (rule get_prop_not_null [OF assms(7)])
  have p: "get_prop payload ''pull_request'' = Inr pr"
    unfolding assms(8) by (rule get_prop_not_null [OF assms(7)])
  obtain summary line where
    "pull_request_block (number_to_string P) payload =
       (Inr (), [ConsoleLog summary, ConsoleLog line])"
    using pull_request_block_plain [OF a p assms(9-13)] by blast
  then show ?thesis
    unfolding handler_checked [OF assms(1) ne assms(2-4)]
    by (simp add: assms(5,6))
qed

text \<open>
  Claim C4. The claim says that every request that passes the presence check, the
  verification and the parser is acknowledged with 200. The \<open>pull_request\<close> block
  runs outside any \<open>try\<close>, and its first statement reads \<open>payload.action\<close>
  without a guard: on the body \<open>null\<close>, which the parser accepts, that read raises
  and the handler returns no acknowledgement.
\<close>

theorem null_payload_not_acknowledged:
  "fst (handler (example_platform (Inr True) [(''null'', JNull)]) ''s3cret''
          \<lparr>x_github_event = Some ''pull_request'', x_github_delivery = Some ''d-1'',
           x_hub_signature_256 = Some ''sha256=0000'', req_text = ''null''\<rparr>)
   \<noteq> Inr (Json (AckBody ''pull_request'' (Some ''d-1'')) 200)"
  by (simp add: handler_eval)

text \<open>
  What holds of the \<open>closed\<close> line: for a \<open>pull_request\<close> event with action \<open>closed\<close>
  whose \<open>merged\<close> flag is the boolean \<open>b\<close>, whose number renders as \<open>num\<close>
  and whose title and author are absent or scalar, the log has the line
  \<open>Pull request #num closed (merged: b)\<close> and the delivery is acknowledged.
\<close>

lemma closed_line_logged:
  assumes "x_github_event req = Some ''pull_request''"
    and "x_hub_signature_256 req = Some signature" "signature \<noteq> []"
    and "req_text req \<noteq> []"
    and "verify P secret (req_text req) signature = Inr verdict"
    and "json_parse P (req_text req) = Inr payload"
    and "get_prop payload ''action'' = Inr (Some (JStr ''closed''))"
    and "get_prop payload ''pull_request'' = Inr pr"
    and "opt_chain pr ''merged'' = Some (JBool b)"
    and "val_string (number_to_string P) (opt_chain pr ''number'') = Inr num"
    and "scalar (opt_chain pr ''title'')"
    and "scalar (opt_chain (opt_chain pr ''user'') ''login'')"
  shows "ConsoleLog (''Pull request #'' @ num @ '' closed (merged: '' @
                     (if b then ''true'' else ''false'') @ '')'')
           \<in> set (snd (handler P secret req))
         \<and> fst (handler P secret req) =
             Inr (Json (AckBody ''pull_request'' (x_github_delivery req)) 200)"
proof -
  have ne: "''pull_request'' \<noteq> []" by simp
  obtain t where t: "val_string (number_to_string P) (opt_chain pr ''title'') = Inr t"
    using scalar_val_string [OF assms(11)] by blast
  obtain u where
    u: "val_string (number_to_string P) (opt_chain (opt_chain pr ''user'') ''login'') = Inr u"
    using scalar_val_string [OF assms(12)] by blast
  have line: "action_line (number_to_string P) (Some (JStr ''closed'')) pr
                (opt_chain pr ''number'') (opt_chain (opt_chain pr ''user'') ''login'')
              = Inr (''Pull request #'' @ num @ '' closed (merged: '' @
                     (if b then ''true'' else ''false'') @ '')'')"
    by (simp add: action_line_def Let_def assms(9,10))
  have "\<exists>summary. pull_request_block (number_to_string P) payload =
          (Inr (), [ConsoleLog summary,
                    ConsoleLog (''Pull request #'' @ num @ '' closed (merged: '' @
                                (if b then ''true'' else ''false'') @ '')'')])"
    by (simp add: pull_request_block_def Let_def assms(7,8,10) t u line)
  then obtain summary where
    "pull_request_block (number_to_string P) payload =
          (Inr (), [ConsoleLog summary,
                    ConsoleLog (''Pull request #'' @ num @ '' closed (merged: '' @
                                (if b then ''true'' else ''false'') @ '')'')])" ..
  then show ?thesis
    unfolding handler_checked [OF assms(1) ne assms(2-4)]
    by (simp add: assms(5,6))
qed

text \<open>
  Claim C5. The claim says that every \<open>pull_request\<close> event with action
  \<open>closed\<close> produces the log line with the number and the merged flag. The summary
  line logged before the \<open>switch\<close> converts the title to a string, outside any
  \<open>try\<close>. On the body below, whose title is an object with an own property
  \<open>toString\<close>, that conversion raises \<open>TypeError\<close>: the handler stops after
  the correlation line and the \<open>closed\<close> line is never logged.
\<close>

theorem closed_line_lost:
  \<open>handler
     (example_platform (Inr True)
        [(''{"action":"closed","pull_request":{"number":7,"title":{"toString":null},"merged":true}}'',
          JObj [(''action'', JStr ''closed''),
                (''pull_request'',
                 JObj [(''number'', JNum 7),
                       (''title'', JObj [(''toString'', JNull)]),
                       (''merged'', JBool True)])])])
     ''s3cret''
     \<lparr>x_github_event = Some ''pull_request'', x_github_delivery = Some ''d-1'',
      x_hub_signature_256 = Some ''sha256=0000'',
      req_text = ''{"action":"closed","pull_request":{"number":7,"title":{"toString":null},"merged":true}}''\<rparr>
   = (Inl TypeError,
      [VerifyCall ''{"action":"closed","pull_request":{"number":7,"title":{"toString":null},"merged":true}}''
         ''sha256=0000'',
       ParseCall ''{"action":"closed","pull_request":{"number":7,"title":{"toString":null},"merged":true}}'',
       ConsoleLog ''Received GitHub webhook: pull_request (delivery: d-1)''])\<close>
  by (simp add: handler_eval decimal.simps)

text \<open>
  Claim C6. The claim says that the handler never raises on a verified, parsed
  \<open>pull_request\<close> payload, whichever of its fields are absent. The nested reads are
  optional-chained, but \<open>payload.action\<close> is a plain property read and the block is
  outside any \<open>try\<close>: on the payload \<open>null\<close>, in which every field is absent,
  the read raises \<open>TypeError\<close> and no response is returned.
\<close>

theorem null_payload_raises:
  "handler (example_platform (Inr True) [(''null'', JNull)]) ''s3cret''
     \<lparr>x_github_event = Some ''pull_request'', x_github_delivery = None,
      x_hub_signature_256 = Some ''sha256=0000'', req_text = ''null''\<rparr>
   = (Inl TypeError,
      [VerifyCall ''null'' ''sha256=0000'', ParseCall ''null'',
       ConsoleLog ''Received GitHub webhook: pull_request (delivery: undefined)''])"
  by (simp add: handler_eval)

section \<open>The webhook handler: two deliveries run through the model\<close>

text \<open>
  The scenario of the specification: an \<open>opened\<close> pull request by \<open>alice\<close>,
  and a merged pull request being closed.
\<close>

lemma opened_delivery:
  \<open>handler
     (example_platform (Inr True)
        [(''{"action":"opened","pull_request":{"number":42,"title":"Fix bug","user":{"login":"alice"}}}'',
          JObj [(''action'', JStr ''opened''),
                (''pull_request'',
                 JObj [(''number'', JNum 42), (''title'', JStr ''Fix bug''),
                       (''user'', JObj [(''login'', JStr ''alice'')])])])])
     ''s3cret''
     \<lparr>x_github_event = Some ''pull_request'', x_github_delivery = Some ''d-1'',
      x_hub_signature_256 = Some ''sha256=0000'',
      req_text = ''{"action":"opened","pull_request":{"number":42,"title":"Fix bug","user":{"login":"alice"}}}''\<rparr>
   = (Inr (Json (AckBody ''pull_request'' (Some ''d-1'')) 200),
      [VerifyCall ''{"action":"opened","pull_request":{"number":42,"title":"Fix bug","user":{"login":"alice"}}}''
         ''sha256=0000'',
       ParseCall ''{"action":"opened","pull_request":{"number":42,"title":"Fix bug","user":{"login":"alice"}}}'',
       ConsoleLog ''Received GitHub webhook: pull_request (delivery: d-1)'',
       ConsoleLog ''Pull request #42: Fix bug (opened) by alice'',
       ConsoleLog ''New pull request #42 opened by alice''])\<close>
  by (simp add: handler_eval decimal.simps)

lemma closed_delivery:
  \<open>handler
     (example_platform (Inr True)
        [(''{"action":"closed","pull_request":{"number":7,"merged":true}}'',
          JObj [(''action'', JStr ''closed''),
                (''pull_request'', JObj [(''number'', JNum 7), (''merged'', JBool True)])])])
     ''s3cret''
     \<lparr>x_github_event = Some ''pull_request'', x_github_delivery = None,
      x_hub_signature_256 = Some ''sha256=0000'',
      req_text = ''{"action":"closed","pull_request":{"number":7,"merged":true}}''\<rparr>
   = (Inr (Json (AckBody ''pull_request'' None) 200),
      [VerifyCall ''{"action":"closed","pull_request":{"number":7,"merged":true}}'' ''sha256=0000'',
       ParseCall ''{"action":"closed","pull_request":{"number":7,"merged":true}}'',
       ConsoleLog ''Received GitHub webhook: pull_request (delivery: undefined)'',
       ConsoleLog ''Pull request #7: undefined (closed) by undefined'',
       ConsoleLog ''Pull request #7 closed (merged: true)''])\<close>
  by (simp add: handler_eval decimal.simps)

section \<open>The webhook handler: replay\<close>






section \<open>The comment publisher\<close>

lemma createReviewComment_configured:
  assumes "GITHUB_APP_ID E = Some app_id" "app_id \<noteq> []"
    and "GITHUB_PRIVATE_KEY E = Some private_key" "private_key \<noteq> []"
  shows "createReviewComment A E owner repo pullNumber body =
           (case new_Octokit A (auth_config A app_id private_key (GITHUB_INSTALLATION_ID E)) of
              Inl e \<Rightarrow>
                (Inl e,
                 [Console [S owner, S repo, N pullNumber, S body],
                  NewOctokit (auth_config A app_id private_key (GITHUB_INSTALLATION_ID E))])
            | Inr octokit \<Rightarrow>
                try_block A octokit (GITHUB_INSTALLATION_ID E) owner repo pullNumber body
                  [Console [S owner, S repo, N pullNumber, S body],
                   NewOctokit (auth_config A app_id private_key (GITHUB_INSTALLATION_ID E))])"
  using assms by (simp add: createReviewComment_def Let_def split: sum.splits)

lemma try_block_starts_with_auth:
  "\<exists>rest. snd (try_block A octokit inst owner repo pullNumber body log) =
            log @ AuthCall (auth_type inst) # rest"
  by (simp add: try_block_def caught_def Let_def split: sum.splits option.splits)

text \<open>
  Claim C7. When \<open>GITHUB_APP_ID\<close> or \<open>GITHUB_PRIVATE_KEY\<close> is unset (or empty), the
  publisher returns the 500 response
  \<open>{error: "Missing GITHUB_APP_ID or GITHUB_PRIVATE_KEY environment variables"}\<close>,
  and its only effect is the first console line: no client is constructed, and neither the
  authentication nor a request to the hosted service is attempted.
\<close>

theorem missing_credentials_rejected:
  assumes "\<not> present (GITHUB_APP_ID E) \<or> \<not> present (GITHUB_PRIVATE_KEY E)"
  shows "createReviewComment A E owner repo pullNumber body =
           (Inr (Json (ErrorBody
                  ''Missing GITHUB_APP_ID or GITHUB_PRIVATE_KEY environment variables'') 500),
            [Console [S owner, S repo, N pullNumber, S body]])"
  using assms
  by (auto simp: createReviewComment_def present_def Let_def split: option.splits)

theorem missing_credentials_rejected_witness:
  "createReviewComment
     (example_api (Inr ''app'') (Inr (Some ''review-bot'')) (Inr (Comment 99 ''https://c/99'')))
     \<lparr>GITHUB_APP_ID = None, GITHUB_PRIVATE_KEY = Some ''pem'',
      GITHUB_INSTALLATION_ID = Some ''456''\<rparr>
     ''octo'' ''repo'' 7 ''hello''
   = (Inr (Json (ErrorBody
             ''Missing GITHUB_APP_ID or GITHUB_PRIVATE_KEY environment variables'') 500),
      [Console [S ''octo'', S ''repo'', N 7, S ''hello'']])"
  using
    missing_credentials_rejected [where
      A = "example_api (Inr ''app'') (Inr (Some ''review-bot'')) (Inr (Comment 99 ''https://c/99''))"
      and E = "\<lparr>GITHUB_APP_ID = None, GITHUB_PRIVATE_KEY = Some ''pem'',
                GITHUB_INSTALLATION_ID = Some ''456''\<rparr>"
      and owner = "''octo''" and repo = "''repo''" and pullNumber = 7 and body = "''hello''"]
  by (simp add: present_def)

text \<open>
  What holds of the error masking: with both credentials present and the client
  constructed, an error raised by the authentication call, by the identity request
  \<open>GET /app\<close> or by the creation of the comment is caught. The caller gets the 500
  response \<open>{error: "Failed to create review comment"}\<close>, which does not depend on
  the error, and the error itself goes to the console only, as the last effect of the run.
\<close>

lemma upstream_errors_masked:
  assumes "GITHUB_APP_ID E = Some app_id" "app_id \<noteq> []"
    and "GITHUB_PRIVATE_KEY E = Some private_key" "private_key \<noteq> []"
    and "new_Octokit A (auth_config A app_id private_key (GITHUB_INSTALLATION_ID E)) = Inr octokit"
    and "auth A octokit (auth_type (GITHUB_INSTALLATION_ID E)) = Inl e
         \<or> (\<exists>ty. auth A octokit (auth_type (GITHUB_INSTALLATION_ID E)) = Inr ty
                \<and> request_GET_app A octokit = Inl e)
         \<or> (\<exists>ty slug. auth A octokit (auth_type (GITHUB_INSTALLATION_ID E)) = Inr ty
                \<and> request_GET_app A octokit = Inr (Some slug)
                \<and> createComment A octokit owner repo pullNumber body = Inl e)"
  shows "fst (createReviewComment A E owner repo pullNumber body) =
           Inr (Json (ErrorBody ''Failed to create review comment'') 500)
         \<and> last (snd (createReviewComment A E owner repo pullNumber body)) =
             ConsoleErr ''Error creating review comment:'' e"
  unfolding createReviewComment_configured [OF assms(1-4)]
  using assms(5,6)
  by (auto simp: try_block_def caught_def Let_def)

lemma upstream_errors_masked_example:
  "fst (createReviewComment
          (example_api (Inl (LibraryError ''bad key'')) (Inr (Some ''review-bot''))
             (Inr (Comment 99 ''https://c/99'')))
          \<lparr>GITHUB_APP_ID = Some ''123'', GITHUB_PRIVATE_KEY = Some ''pem'',
           GITHUB_INSTALLATION_ID = None\<rparr>
          ''octo'' ''repo'' 7 ''hello'')
     = Inr (Json (ErrorBody ''Failed to create review comment'') 500)
   \<and> fst (createReviewComment
          (example_api (Inr ''installation'') (Inl (LibraryError ''HttpError: Unauthorized''))
             (Inr (Comment 99 ''https://c/99'')))
          \<lparr>GITHUB_APP_ID = Some ''123'', GITHUB_PRIVATE_KEY = Some ''pem'',
           GITHUB_INSTALLATION_ID = Some ''456''\<rparr>
          ''octo'' ''repo'' 7 ''hello'')
     = Inr (Json (ErrorBody ''Failed to create review comment'') 500)
   \<and> fst (createReviewComment
          (example_api (Inr ''installation'') (Inr (Some ''review-bot''))
             (Inl (LibraryError ''HttpError: Not Found'')))
          \<lparr>GITHUB_APP_ID = Some ''123'', GITHUB_PRIVATE_KEY = Some ''pem'',
           GITHUB_INSTALLATION_ID = Some ''456''\<rparr>
          ''octo'' ''repo'' 7 ''hello'')
     = Inr (Json (ErrorBody ''Failed to create review comment'') 500)
   \<and> last (snd (createReviewComment
          (example_api (Inr ''installation'') (Inr (Some ''review-bot''))
             (Inl (LibraryError ''HttpError: Not Found'')))
          \<lparr>GITHUB_APP_ID = Some ''123'', GITHUB_PRIVATE_KEY = Some ''pem'',
           GITHUB_INSTALLATION_ID = Some ''456''\<rparr>
          ''octo'' ''repo'' 7 ''hello''))
     = ConsoleErr ''Error creating review comment:'' (LibraryError ''HttpError: Not Found'')"
  using
    upstream_errors_masked [where
      A = "example_api (Inl (LibraryError ''bad key'')) (Inr (Some ''review-bot''))
             (Inr (Comment 99 ''https://c/99''))"
      and E = "\<lparr>GITHUB_APP_ID = Some ''123'', GITHUB_PRIVATE_KEY = Some ''pem'',
                GITHUB_INSTALLATION_ID = None\<rparr>"
      and app_id = "''123''" and private_key = "''pem''" and octokit = "()"
      and e = "LibraryError ''bad key''"
      and owner = "''octo''" and repo = "''repo''" and pullNumber = 7 and body = "''hello''"]
    upstream_errors_masked [where
      A = "example_api (Inr ''installation'') (Inl (LibraryError ''HttpError: Unauthorized''))
             (Inr (Comment 99 ''https://c/99''))"
      and E = "\<lparr>GITHUB_APP_ID = Some ''123'', GITHUB_PRIVATE_KEY = Some ''pem'',
                GITHUB_INSTALLATION_ID = Some ''456''\<rparr>"
      and app_id = "''123''" and private_key = "''pem''" and octokit = "()"
      and e = "LibraryError ''HttpError: Unauthorized''"
      and owner = "''octo''" and repo = "''repo''" and pullNumber = 7 and body = "''hello''"]
    upstream_errors_masked [where
      A = "example_api (Inr ''installation'') (Inr (Some ''review-bot''))
             (Inl (LibraryError ''HttpError: Not Found''))"
      and E = "\<lparr>GITHUB_APP_ID = Some ''123'', GITHUB_PRIVATE_KEY = Some ''pem'',
                GITHUB_INSTALLATION_ID = Some ''456''\<rparr>"
      and app_id = "''123''" and private_key = "''pem''" and octokit = "()"
      and e = "LibraryError ''HttpError: Not Found''"
      and owner = "''octo''" and repo = "''repo''" and pullNumber = 7 and body = "''hello''"]
  by (simp add: example_api_def)

text \<open>
  Claim C8. The claim says that, with the configuration present, every error of the
  authentication, identity-confirmation or comment-creation stage is caught and reaches
  the caller as the 500 response \<open>{error: "Failed to create review comment"}\<close> only.
  The authentication context is constructed by \<open>new Octokit\<close> with the strategy
  \<open>createAppAuth\<close>, and that statement stands before the \<open>try\<close>. With
  \<open>GITHUB_INSTALLATION_ID\<close> set to \<open>0\<close> the variable is a non-empty string,
  so the options carry \<open>installationId: 0\<close>; the strategy rejects the falsy value,
  the constructor throws, and the error reaches the caller as it is: no response is
  returned and nothing is logged.
\<close>

theorem constructor_error_escapes:
  "createReviewComment
     (validating_api (Inr ''installation'') (Inr (Some ''review-bot''))
        (Inr (Comment 99 ''https://c/99'')))
     \<lparr>GITHUB_APP_ID = Some ''123'', GITHUB_PRIVATE_KEY = Some ''pem'',
      GITHUB_INSTALLATION_ID = Some ''0''\<rparr>
     ''octo'' ''repo'' 7 ''hello''
   = (Inl (LibraryError ''[@octokit/auth-app] installationId is set to a falsy value''),
      [Console [S ''octo'', S ''repo'', N 7, S ''hello''],
       NewOctokit \<lparr>appId = 123, privateKey = ''pem'', installationId = Some 0\<rparr>])"
  by (simp add: createReviewComment_def auth_config_def validating_api_def example_api_def
                createAppAuth_checks_def Let_def)

text \<open>
  Claim C10. With both credentials present, the options given to the client carry an
  installation identifier exactly when \<open>GITHUB_INSTALLATION_ID\<close> is set and not empty,
  and it is then the parsed value of the variable; once the client is constructed, the
  authentication is requested with type \<open>installation\<close> in that case and with type
  \<open>app\<close> when the variable is unset or empty.
\<close>

theorem auth_mode_by_truthiness:
  assumes "GITHUB_APP_ID E = Some app_id" "app_id \<noteq> []"
    and "GITHUB_PRIVATE_KEY E = Some private_key" "private_key \<noteq> []"
  shows "\<exists>options rest.
           snd (createReviewComment A E owner repo pullNumber body) =
             Console [S owner, S repo, N pullNumber, S body] # NewOctokit options # rest
           \<and> options =
               \<lparr>appId = parseInt10 A app_id, privateKey = private_key,
                installationId =
                  (if present (GITHUB_INSTALLATION_ID E)
                   then Some (parseInt10 A (the (GITHUB_INSTALLATION_ID E))) else None)\<rparr>
           \<and> (case new_Octokit A options of
                 Inl e \<Rightarrow> rest = []
               | Inr octokit \<Rightarrow>
                   (\<exists>rest'. rest =
                      AuthCall (if present (GITHUB_INSTALLATION_ID E)
                                then ''installation'' else ''app'') # rest'))"
proof -
  let ?inst = "GITHUB_INSTALLATION_ID E"
  have opts: "auth_config A app_id private_key ?inst =
          \<lparr>appId = parseInt10 A app_id, privateKey = private_key,
           installationId =
             (if present ?inst then Some (parseInt10 A (the ?inst)) else None)\<rparr>"
    by (simp add: auth_config_def present_def split: option.splits)
  have ty: "auth_type ?inst = (if present ?inst then ''installation'' else ''app'')"
    by (simp add: auth_type_def present_def split: option.splits)
  show ?thesis
  proof (cases "new_Octokit A (auth_config A app_id private_key ?inst)")
    case (Inl e)
    then show ?thesis
      unfolding createReviewComment_configured [OF assms]
      by (simp add: opts [symmetric])
  next
    case (Inr octokit)
    obtain rest where
      "snd (try_block A octokit ?inst owner repo pullNumber body
              [Console [S owner, S repo, N pullNumber, S body],
               NewOctokit (auth_config A app_id private_key ?inst)]) =
       [Console [S owner, S repo, N pullNumber, S body],
        NewOctokit (auth_config A app_id private_key ?inst)] @ AuthCall (auth_type ?inst) # rest"
      using try_block_starts_with_auth
              [of A octokit ?inst owner repo pullNumber body
                  "[Console [S owner, S repo, N pullNumber, S body],
                    NewOctokit (auth_config A app_id private_key ?inst)]"]
      by blast
    with Inr show ?thesis
      unfolding createReviewComment_configured [OF assms]
      by (simp add: opts [symmetric] ty [symmetric])
  qed
qed

theorem auth_mode_by_truthiness_witness:
  "(\<exists>rest. snd (createReviewComment
                  (example_api (Inr ''app'') (Inr None) (Inr (Comment 99 ''https://c/99'')))
                  \<lparr>GITHUB_APP_ID = Some ''123'', GITHUB_PRIVATE_KEY = Some ''pem'',
                   GITHUB_INSTALLATION_ID = Some []\<rparr>
                  ''octo'' ''repo'' 7 ''hello'')
            = Console [S ''octo'', S ''repo'', N 7, S ''hello'']
              # NewOctokit \<lparr>appId = 123, privateKey = ''pem'', installationId = None\<rparr>
              # AuthCall ''app'' # rest)
   \<and> (\<exists>rest. snd (createReviewComment
                  (example_api (Inr ''installation'') (Inr None) (Inr (Comment 99 ''https://c/99'')))
                  \<lparr>GITHUB_APP_ID = Some ''123'', GITHUB_PRIVATE_KEY = Some ''pem'',
                   GITHUB_INSTALLATION_ID = Some ''456''\<rparr>
                  ''octo'' ''repo'' 7 ''hello'')
            = Console [S ''octo'', S ''repo'', N 7, S ''hello'']
              # NewOctokit \<lparr>appId = 123, privateKey = ''pem'', installationId = Some 456\<rparr>
              # AuthCall ''installation'' # rest)"
  using
    auth_mode_by_truthiness [where
      A = "example_api (Inr ''app'') (Inr None) (Inr (Comment 99 ''https://c/99''))"
      and E = "\<lparr>GITHUB_APP_ID = Some ''123'', GITHUB_PRIVATE_KEY = Some ''pem'',
                GITHUB_INSTALLATION_ID = Some []\<rparr>"
      and app_id = "''123''" and private_key = "''pem''"
      and owner = "''octo''" and repo = "''repo''" and pullNumber = 7 and body = "''hello''"]
    auth_mode_by_truthiness [where
      A = "example_api (Inr ''installation'') (Inr None) (Inr (Comment 99 ''https://c/99''))"
      and E = "\<lparr>GITHUB_APP_ID = Some ''123'', GITHUB_PRIVATE_KEY = Some ''pem'',
                GITHUB_INSTALLATION_ID = Some ''456''\<rparr>"
      and app_id = "''123''" and private_key = "''pem''"
      and owner = "''octo''" and repo = "''repo''" and pullNumber = 7 and body = "''hello''"]
  by (auto simp: example_api_def present_def)

end
